theory Spec2Isabelle
  imports Complex_Main "HOL-Library.Word"
begin

unbundle bit_operations_syntax

section \<open>The setpoint position plugin of mavros\<close>

text \<open>
  A shallow embedding of \<^verbatim>\<open>src/mavros/src/plugins/setpoint_position.cpp\<close>: the class
  \<^verbatim>\<open>SetpointPositionPlugin\<close> with its members \<^verbatim>\<open>initialize\<close>,
  \<^verbatim>\<open>send_position_target\<close>, \<^verbatim>\<open>transform_cb\<close>, \<^verbatim>\<open>setpoint_cb\<close> and
  \<^verbatim>\<open>set_mav_frame_cb\<close>.

  The C++ type \<^verbatim>\<open>double\<close> is the type variable \<open>'a\<close>: the plugin itself only moves
  scalars around, negates them and writes the constants 0 and 50, so every statement below
  holds for any carrier with these operations. A rotation (the \<^verbatim>\<open>Eigen::Quaterniond\<close>
  the plugin hands to the frame helpers) is the type variable \<open>'q\<close>.
\<close>

subsection \<open>Data\<close>

text \<open>
  \<^verbatim>\<open>mavlink::common::MAV_FRAME\<close> is an enumeration over \<^verbatim>\<open>uint8_t\<close>, and the
  \<^verbatim>\<open>static_cast\<close> of line 158 stores any 8-bit value of the request in it, so a frame
  is an 8-bit word; \<^verbatim>\<open>utils::enum_value\<close> reads the same word back.
\<close>

type_synonym MAV_FRAME = "8 word"

text \<open>
  Modelled from the spec: the three enumerators of \<^verbatim>\<open>MAV_FRAME\<close> the plugin mentions.
  The enumeration is declared by the MAVLink dialect headers, which are not among the
  sources. The spec calls them WORLD_LOCAL_NED, BODY_RELATIVE and BODY_RELATIVE_OFFSET and
  gives no numbers; the ids are the protocol's. The general statements below use only
  that the three differ.
\<close>

definition LOCAL_NED :: MAV_FRAME where
  "LOCAL_NED = 1"

definition BODY_NED :: MAV_FRAME where
  "BODY_NED = 8"

definition BODY_OFFSET_NED :: MAV_FRAME where
  "BODY_OFFSET_NED = 9"

datatype 'a Vector3d = Vector3d (vec_x: 'a) (vec_y: 'a) (vec_z: 'a)

definition Vector3d_Zero :: "'a::zero Vector3d" where
  "Vector3d_Zero = Vector3d 0 0 0"

text \<open>
  An \<^verbatim>\<open>Eigen::Affine3d\<close> as the plugin reads it: \<open>translation\<close> is
  \<^verbatim>\<open>tr.translation()\<close> and \<open>rotation\<close> is \<^verbatim>\<open>Eigen::Quaterniond(tr.rotation())\<close>.
\<close>

record ('a, 'q) Affine3d =
  translation :: "'a Vector3d"
  rotation :: 'q

text \<open>
  A \<^verbatim>\<open>ros::Time\<close> is represented by the value of its \<^verbatim>\<open>toNSec()\<close>, an unsigned
  64-bit count of nanoseconds.
\<close>

type_synonym Time = "64 word"

record ('a, 'q) TransformStamped =
  transform_stamp :: Time
  transform_translation :: "'a Vector3d"
  transform_rotation :: 'q

record ('a, 'q) PoseStamped =
  pose_stamp :: Time
  pose_position :: "'a Vector3d"
  pose_orientation :: 'q

record SetMavFrameRequest =
  req_mav_frame :: "8 word"

record SetMavFrameResponse =
  res_success :: bool

text \<open>
  Modelled from the spec: the SetpointCommand, the outbound command that the setpoint mixin
  (missing from the sources) fills from the eight arguments of the call at lines 128 to
  134. Section 6 of the spec gives the widths: "time_ms (unsigned 32-bit, truncated
  milliseconds)", the frame a protocol id, the mask an unsigned 16-bit field.
\<close>

record 'a SetpointCommand =
  time_ms :: "32 word"
  frame :: "8 word"
  ignore_mask :: "16 word"
  position :: "'a Vector3d"
  velocity :: "'a Vector3d"
  acceleration :: "'a Vector3d"
  yaw :: 'a
  yaw_rate :: 'a

text \<open>
  The parameter server behind the node handle \<^verbatim>\<open>sp_nh\<close>: a map from parameter names to
  typed values. A typed read succeeds when the name is bound to a value of that type.
\<close>

datatype 'a XmlRpcValue = TypeBoolean bool | TypeInt int | TypeDouble 'a | TypeString string

type_synonym 'a param_server = "string \<Rightarrow> 'a XmlRpcValue option"

definition param_bool :: "'a param_server \<Rightarrow> string \<Rightarrow> bool \<Rightarrow> bool" where
  "param_bool ps key default_val =
     (case ps key of Some (TypeBoolean b) \<Rightarrow> b | _ \<Rightarrow> default_val)"

definition param_string :: "'a param_server \<Rightarrow> string \<Rightarrow> string \<Rightarrow> string" where
  "param_string ps key default_val =
     (case ps key of Some (TypeString s) \<Rightarrow> s | _ \<Rightarrow> default_val)"

definition param_double :: "'a param_server \<Rightarrow> string \<Rightarrow> 'a \<Rightarrow> 'a" where
  "param_double ps key default_val =
     (case ps key of Some (TypeDouble d) \<Rightarrow> d | _ \<Rightarrow> default_val)"

definition getParam :: "'a param_server \<Rightarrow> string \<Rightarrow> string option" where
  "getParam ps key = (case ps key of Some (TypeString s) \<Rightarrow> Some s | _ \<Rightarrow> None)"

text \<open>
  \<^verbatim>\<open>setParam\<close> returns nothing: the caller cannot see whether the server took the write.
  The flag \<open>stored\<close> is the server's answer.
\<close>

definition setParam :: "'a param_server \<Rightarrow> string \<Rightarrow> string \<Rightarrow> bool \<Rightarrow> 'a param_server" where
  "setParam ps key s stored = (if stored then ps(key \<mapsto> TypeString s) else ps)"

text \<open>
  The helpers of \<^verbatim>\<open>ftf\<close> and \<^verbatim>\<open>utils\<close> that the plugin calls on rotations and on frame
  names are not among the sources, and the spec gives no formula for them: they are
  parameters of the model.
\<close>

record ('a, 'q) helpers =
  transform_orientation_baselink_aircraft :: "'q \<Rightarrow> 'q"
  transform_orientation_enu_ned :: "'q \<Rightarrow> 'q"
  quaternion_get_yaw :: "'q \<Rightarrow> 'a"
  mav_frame_from_str :: "string \<Rightarrow> MAV_FRAME"
  to_string :: "MAV_FRAME \<Rightarrow> string"

text \<open>
  Modelled from the spec: \<^verbatim>\<open>ftf::transform_frame_enu_ned\<close> on a vector, missing from the
  sources. "Given input (east, north, up), output is (north, east, -up)."
\<close>

fun transform_frame_enu_ned :: "'a::uminus Vector3d \<Rightarrow> 'a Vector3d" where
  "transform_frame_enu_ned (Vector3d east north up) = Vector3d north east (- up)"

text \<open>
  Modelled from the spec: \<^verbatim>\<open>ftf::transform_frame_baselink_aircraft\<close> on a vector, missing
  from the sources. The body-axis remap "forward-left-up to forward-right-down": the
  component to the right is minus the one to the left, the one down is minus the one up.
\<close>

fun transform_frame_baselink_aircraft :: "'a::uminus Vector3d \<Rightarrow> 'a Vector3d" where
  "transform_frame_baselink_aircraft (Vector3d forward left up) = Vector3d forward (- left) (- up)"

subsection \<open>The plugin's state\<close>

text \<open>
  The members of the class, then what its collaborators hold for it: \<open>tf_thd_name\<close> is the
  transform listener started by \<^verbatim>\<open>tf2_start\<close> (if any), \<open>tf_last_processed\<close> the clock of
  its rate limiter, and \<open>sent\<close> the commands handed to the transport, oldest first.
\<close>

record 'a plugin =
  sp_nh :: "'a param_server"
  setpoint_sub :: "(string \<times> nat) option"
  mav_frame_srv :: "string option"
  tf_frame_id :: string
  tf_child_frame_id :: string
  tf_listen :: bool
  tf_rate :: 'a
  mav_frame :: MAV_FRAME
  tf_thd_name :: "string option"
  tf_last_processed :: "'a option"
  sent :: "'a SetpointCommand list"

text \<open>
  The constructor sets \<^verbatim>\<open>tf_rate(50.0)\<close> and \<^verbatim>\<open>tf_listen(false)\<close> and leaves
  \<^verbatim>\<open>mav_frame\<close> uninitialised: \<open>garbage\<close> is whatever the member holds then.
\<close>

definition SetpointPositionPlugin :: "'a::numeral param_server \<Rightarrow> MAV_FRAME \<Rightarrow> 'a plugin" where
  "SetpointPositionPlugin ps garbage =
     \<lparr> sp_nh = ps, setpoint_sub = None, mav_frame_srv = None,
       tf_frame_id = [], tf_child_frame_id = [],
       tf_listen = False, tf_rate = 50, mav_frame = garbage,
       tf_thd_name = None, tf_last_processed = None, sent = [] \<rparr>"

subsection \<open>Sending a setpoint\<close>

text \<open>
  Modelled from the spec: \<^verbatim>\<open>set_position_target_local_ned\<close> of the setpoint mixin, missing
  from the sources. The encoder "hands the command to the (external) transport for
  dispatch": the command is appended to the log of sent commands. Its first parameter is
  the unsigned 32-bit time of the command, so a wider argument is converted at the call.
\<close>

definition set_position_target_local_ned ::
  "'a plugin \<Rightarrow> 32 word \<Rightarrow> 8 word \<Rightarrow> 16 word \<Rightarrow> 'a Vector3d \<Rightarrow> 'a Vector3d \<Rightarrow> 'a Vector3d
     \<Rightarrow> 'a \<Rightarrow> 'a \<Rightarrow> 'a plugin" where
  "set_position_target_local_ned st t f m p v af y yr =
     st\<lparr> sent := sent st @
       [\<lparr> time_ms = t, frame = f, ignore_mask = m, position = p, velocity = v,
          acceleration = af, yaw = y, yaw_rate = yr \<rparr>] \<rparr>"

text \<open>
  \<^verbatim>\<open>(1 << 11) | (7 << 6) | (7 << 3)\<close> is computed on \<^verbatim>\<open>int\<close> and stored in a
  \<^verbatim>\<open>uint16_t\<close>.
\<close>

definition ignore_all_except_xyz_y :: "16 word" where
  "ignore_all_except_xyz_y =
     word_of_int (push_bit 11 (1::int) OR push_bit 6 (7::int) OR push_bit 3 (7::int))"

text \<open>
  \<^verbatim>\<open>stamp.toNSec() / 1000000\<close> is a division of unsigned 64-bit values; \<open>ucast\<close> is the
  conversion of the quotient to the callee's unsigned 32-bit parameter, which keeps the low
  32 bits.
\<close>

definition send_position_target ::
  "('a::{zero,uminus}, 'q) helpers \<Rightarrow> 'a plugin \<Rightarrow> Time \<Rightarrow> ('a, 'q) Affine3d \<Rightarrow> 'a plugin" where
  "send_position_target F st stamp tr =
     (let p = (if mav_frame st = BODY_NED \<or> mav_frame st = BODY_OFFSET_NED
               then transform_frame_baselink_aircraft (translation tr)
               else transform_frame_enu_ned (translation tr));
          q = (if mav_frame st = BODY_NED \<or> mav_frame st = BODY_OFFSET_NED
               then transform_orientation_baselink_aircraft F (rotation tr)
               else transform_orientation_enu_ned F
                      (transform_orientation_baselink_aircraft F (rotation tr)))
      in set_position_target_local_ned st (ucast (stamp div 1000000))
           (mav_frame st)
           ignore_all_except_xyz_y
           p
           Vector3d_Zero
           Vector3d_Zero
           (quaternion_get_yaw F q) 0)"

text \<open>The command a call of \<open>send_position_target\<close> emits: the last one of the log.\<close>

definition emitted ::
  "('a::{zero,uminus}, 'q) helpers \<Rightarrow> 'a plugin \<Rightarrow> Time \<Rightarrow> ('a, 'q) Affine3d \<Rightarrow> 'a SetpointCommand" where
  "emitted F st stamp tr = last (sent (send_position_target F st stamp tr))"

subsection \<open>Callbacks\<close>

definition transform_cb ::
  "('a::{zero,uminus}, 'q) helpers \<Rightarrow> 'a plugin \<Rightarrow> ('a, 'q) TransformStamped \<Rightarrow> 'a plugin" where
  "transform_cb F st transform =
     (let tr = \<lparr> translation = transform_translation transform,
                 rotation = transform_rotation transform \<rparr>
      in send_position_target F st (transform_stamp transform) tr)"

definition setpoint_cb ::
  "('a::{zero,uminus}, 'q) helpers \<Rightarrow> 'a plugin \<Rightarrow> ('a, 'q) PoseStamped \<Rightarrow> 'a plugin" where
  "setpoint_cb F st req =
     (let tr = \<lparr> translation = pose_position req, rotation = pose_orientation req \<rparr>
      in send_position_target F st (pose_stamp req) tr)"

text \<open>
  The service handler returns the new state, the response and its own return value.
  \<open>stored\<close> is the parameter server's answer to the write.
\<close>

definition set_mav_frame_cb ::
  "('a, 'q) helpers \<Rightarrow> 'a plugin \<Rightarrow> SetMavFrameRequest \<Rightarrow> bool
     \<Rightarrow> 'a plugin \<times> SetMavFrameResponse \<times> bool" where
  "set_mav_frame_cb F st req stored =
     (let st1 = st\<lparr> mav_frame := req_mav_frame req \<rparr>;
          mav_frame_str = to_string F (mav_frame st1);
          st2 = st1\<lparr> sp_nh := setParam (sp_nh st1) ''mav_frame'' mav_frame_str stored \<rparr>
      in (st2, \<lparr> res_success = True \<rparr>, True))"

subsection \<open>Initialisation\<close>

text \<open>
  Modelled from the spec: \<^verbatim>\<open>tf2_start\<close> of the transform listener mixin, missing from the
  sources. It starts the listener under the given name, with a rate limiter that has
  processed nothing yet.
\<close>

definition tf2_start :: "'a plugin \<Rightarrow> string \<Rightarrow> 'a plugin" where
  "tf2_start st thd_name = st\<lparr> tf_thd_name := Some thd_name, tf_last_processed := None \<rparr>"

text \<open>
  \<^verbatim>\<open>initialize\<close>, without the base class's part (it keeps the reference to the UAS) and
  without the log line. The subscription is to the topic ''local'' with a queue of 10, the
  service is advertised as ''mav_frame''.
\<close>

definition initialize :: "('a::numeral, 'q) helpers \<Rightarrow> 'a plugin \<Rightarrow> 'a plugin" where
  "initialize F st =
     (let st1 = st\<lparr> tf_listen := param_bool (sp_nh st) ''tf/listen'' False \<rparr>;
          st2 = st1\<lparr> tf_frame_id := param_string (sp_nh st1) ''tf/frame_id'' ''map'' \<rparr>;
          st3 = st2\<lparr> tf_child_frame_id :=
                       param_string (sp_nh st2) ''tf/child_frame_id'' ''target_position'' \<rparr>;
          st4 = st3\<lparr> tf_rate := param_double (sp_nh st3) ''tf/rate_limit'' 50 \<rparr>;
          st5 = (if tf_listen st4 then tf2_start st4 ''PositionSpTF''
                 else st4\<lparr> setpoint_sub := Some (''local'', 10) \<rparr>);
          st6 = st5\<lparr> mav_frame_srv := Some ''mav_frame'' \<rparr>
      in case getParam (sp_nh st6) ''mav_frame'' of
           None \<Rightarrow> st6\<lparr> mav_frame := LOCAL_NED \<rparr>
         | Some mav_frame_str \<Rightarrow> st6\<lparr> mav_frame := mav_frame_from_str F mav_frame_str \<rparr>)"

subsection \<open>The transform listener's rate limiter\<close>

text \<open>
  Modelled from the spec: the listener loop of the transform listener mixin, missing from
  the sources. "If an update arrives sooner than the minimum inter-update interval since
  the last processed update, it is silently dropped (no buffering, no catch-up) and the rate
  limiter's clock is not advanced by the dropped update. Each accepted update is
  immediately forwarded as a Pose to the Setpoint Encoder." Times are in seconds; \<open>now\<close>
  is the arrival time of the update.
\<close>

definition min_interval :: "'a::{one,inverse} \<Rightarrow> 'a" where
  "min_interval rate = 1 / rate"

definition tf_listener_update ::
  "('a::linordered_field, 'q) helpers \<Rightarrow> 'a plugin \<Rightarrow> 'a \<Rightarrow> ('a, 'q) TransformStamped \<Rightarrow> 'a plugin" where
  "tf_listener_update F st now transform =
     (case tf_last_processed st of
        None \<Rightarrow> transform_cb F (st\<lparr> tf_last_processed := Some now \<rparr>) transform
      | Some t0 \<Rightarrow>
          if now - t0 < min_interval (tf_rate st) then st
          else transform_cb F (st\<lparr> tf_last_processed := Some now \<rparr>) transform)"

subsection \<open>Runs\<close>

text \<open>
  What the host delivers to an instance: a transform update (when the listener runs), a
  pose message (when the subscription exists), a frame selection request (when the service
  is advertised).
\<close>

datatype ('a, 'q) event =
    TfUpdate 'a "('a, 'q) TransformStamped"
  | PoseMsg "('a, 'q) PoseStamped"
  | MavFrameReq SetMavFrameRequest bool

fun step :: "('a::linordered_field, 'q) helpers \<Rightarrow> 'a plugin \<Rightarrow> ('a, 'q) event \<Rightarrow> 'a plugin" where
  "step F st (TfUpdate now transform) =
     (if tf_thd_name st \<noteq> None then tf_listener_update F st now transform else st)"
| "step F st (PoseMsg req) =
     (if setpoint_sub st \<noteq> None then setpoint_cb F st req else st)"
| "step F st (MavFrameReq req stored) =
     (if mav_frame_srv st \<noteq> None then fst (set_mav_frame_cb F st req stored) else st)"

definition run :: "('a::linordered_field, 'q) helpers \<Rightarrow> 'a plugin \<Rightarrow> ('a, 'q) event list \<Rightarrow> 'a plugin" where
  "run F st evs = foldl (step F) st evs"

subsection \<open>Auxiliary notions\<close>

text \<open>The commands \<open>send_position_target\<close> can emit, from any state and any pose.\<close>

definition from_encoder :: "('a::{zero,uminus}, 'q) helpers \<Rightarrow> 'a SetpointCommand \<Rightarrow> bool" where
  "from_encoder F c = (\<exists>st stamp tr. c = emitted F st stamp tr)"

fun is_frame_request :: "('a, 'q) event \<Rightarrow> bool" where
  "is_frame_request (MavFrameReq req stored) = True"
| "is_frame_request _ = False"

text \<open>
  A concrete choice of the helper parameters, to evaluate the model on examples. A rotation
  is the list of the helpers applied to it so far, and its yaw is the length of that list;
  the frame names are those of the three enumerators above.
\<close>

definition sample_helpers :: "(real, string list) helpers" where
  "sample_helpers =
     \<lparr> transform_orientation_baselink_aircraft = (\<lambda>q. q @ [''baselink_aircraft'']),
       transform_orientation_enu_ned = (\<lambda>q. q @ [''enu_ned'']),
       quaternion_get_yaw = (\<lambda>q. real (length q)),
       mav_frame_from_str = (\<lambda>s. if s = ''BODY_NED'' then 8
                                   else if s = ''BODY_OFFSET_NED'' then 9 else 1),
       to_string = (\<lambda>f. if f = 8 then ''BODY_NED'' else if f = 9 then ''BODY_OFFSET_NED''
                         else if f = 1 then ''LOCAL_NED'' else ''UNKNOWN'') \<rparr>"

section \<open>Properties\<close>

subsection \<open>What a call of the encoder does\<close>

lemma emitted_eq:
  "emitted F st stamp tr =
     \<lparr> time_ms = ucast (stamp div 1000000), frame = mav_frame st, ignore_mask = ignore_all_except_xyz_y,
       position = (if mav_frame st = BODY_NED \<or> mav_frame st = BODY_OFFSET_NED
                   then transform_frame_baselink_aircraft (translation tr)
                   else transform_frame_enu_ned (translation tr)),
       velocity = Vector3d_Zero, acceleration = Vector3d_Zero,
       yaw = quaternion_get_yaw F
               (if mav_frame st = BODY_NED \<or> mav_frame st = BODY_OFFSET_NED
                then transform_orientation_baselink_aircraft F (rotation tr)
                else transform_orientation_enu_ned F
                       (transform_orientation_baselink_aircraft F (rotation tr))),
       yaw_rate = 0 \<rparr>"
  by (simp add: emitted_def send_position_target_def set_position_target_local_ned_def Let_def)

lemma send_position_target_eq:
  "send_position_target F st stamp tr = st\<lparr> sent := sent st @ [emitted F st stamp tr] \<rparr>"
  by (simp add: emitted_def send_position_target_def set_position_target_local_ned_def Let_def)

lemma emitted_tf_last_processed:
  "emitted F (st\<lparr> tf_last_processed := x \<rparr>) stamp tr = emitted F st stamp tr"
  by (simp add: emitted_eq)

lemma emitted_fixed_fields:
  "ignore_mask (emitted F st stamp tr) = 2552
   \<and> velocity (emitted F st stamp tr) = Vector3d 0 0 0
   \<and> acceleration (emitted F st stamp tr) = Vector3d 0 0 0
   \<and> yaw_rate (emitted F st stamp tr) = 0"
  by (simp add: emitted_eq Vector3d_Zero_def ignore_all_except_xyz_y_def)

lemma frames_distinct:
  "LOCAL_NED \<noteq> BODY_NED" "LOCAL_NED \<noteq> BODY_OFFSET_NED" "BODY_NED \<noteq> BODY_OFFSET_NED"
  by (simp_all add: LOCAL_NED_def BODY_NED_def BODY_OFFSET_NED_def)

subsection \<open>What a run preserves\<close>

lemma sent_step:
  "set (sent (step F st ev)) \<subseteq> set (sent st) \<union> {c. from_encoder F c}"
proof (cases ev)
  case (TfUpdate now transform)
  then show ?thesis
    by (auto simp: tf_listener_update_def transform_cb_def send_position_target_eq
        from_encoder_def split: option.splits)
next
  case (PoseMsg req)
  then show ?thesis
    by (auto simp: setpoint_cb_def send_position_target_eq from_encoder_def)
next
  case (MavFrameReq req stored)
  then show ?thesis
    by (simp add: set_mav_frame_cb_def Let_def)
qed

lemma sent_run:
  "set (sent (run F st evs)) \<subseteq> set (sent st) \<union> {c. from_encoder F c}"
  unfolding run_def
proof (induction evs arbitrary: st)
  case Nil
  show ?case by simp
next
  case (Cons ev evs)
  have "set (sent (foldl (step F) (step F st ev) evs))
      \<subseteq> set (sent (step F st ev)) \<union> {c. from_encoder F c}"
    by (rule Cons.IH)
  with sent_step [of F st ev] show ?case by auto
qed

lemma sent_initialize: "sent (initialize F st) = sent st"
  by (simp add: initialize_def tf2_start_def Let_def split: option.splits)

lemma mav_frame_step:
  "\<not> is_frame_request ev \<Longrightarrow> mav_frame (step F st ev) = mav_frame st"
  by (cases ev)
    (simp_all add: tf_listener_update_def transform_cb_def setpoint_cb_def
      send_position_target_eq Let_def split: option.splits)

lemma mav_frame_run:
  "\<forall>ev\<in>set evs. \<not> is_frame_request ev \<Longrightarrow> mav_frame (run F st evs) = mav_frame st"
  unfolding run_def
  by (induction evs arbitrary: st) (simp_all add: mav_frame_step)

lemma adapters_step:
  "tf_thd_name (step F st ev) = tf_thd_name st \<and> setpoint_sub (step F st ev) = setpoint_sub st"
  by (cases ev)
    (simp_all add: tf_listener_update_def transform_cb_def setpoint_cb_def set_mav_frame_cb_def
      send_position_target_eq Let_def split: option.splits)

lemma adapters_run:
  "tf_thd_name (run F st evs) = tf_thd_name st \<and> setpoint_sub (run F st evs) = setpoint_sub st"
  unfolding run_def
  by (induction evs arbitrary: st) (simp_all add: adapters_step)

lemma adapters_initialize:
  "tf_thd_name (initialize F (SetpointPositionPlugin ps garbage)) =
     (if param_bool ps ''tf/listen'' False then Some ''PositionSpTF'' else None)
   \<and> setpoint_sub (initialize F (SetpointPositionPlugin ps garbage)) =
     (if param_bool ps ''tf/listen'' False then None else Some (''local'', 10))"
  by (simp add: initialize_def SetpointPositionPlugin_def tf2_start_def Let_def
      split: option.splits)

subsection \<open>Examples\<close>

lemma sample_run:
  "sent (run sample_helpers (initialize sample_helpers (SetpointPositionPlugin Map.empty 0))
        [PoseMsg \<lparr> pose_stamp = 1500000050, pose_position = Vector3d 1 2 3,
                   pose_orientation = [] \<rparr>])
  = [\<lparr> time_ms = 1500, frame = 1, ignore_mask = 2552, position = Vector3d 2 1 (- 3),
       velocity = Vector3d 0 0 0, acceleration = Vector3d 0 0 0, yaw = 2, yaw_rate = 0 \<rparr>]"
  by (simp add: run_def initialize_def SetpointPositionPlugin_def param_bool_def param_string_def
      param_double_def getParam_def setpoint_cb_def send_position_target_def
      set_position_target_local_ned_def sample_helpers_def LOCAL_NED_def BODY_NED_def
      BODY_OFFSET_NED_def Vector3d_Zero_def ignore_all_except_xyz_y_def Let_def)

subsection \<open>The frame transforms\<close>

text \<open>
  C1: when the active frame is neither BODY_NED nor BODY_OFFSET_NED, the position of the
  emitted command is the east-north-up to north-east-down transform of the input
  translation: (east, north, up) becomes (north, east, -up). The example of the spec,
  (1, 2, 3) under LOCAL_NED giving (2, 1, -3), follows as an instance.
\<close>

theorem world_fixed_translation:
  assumes "mav_frame st \<noteq> BODY_NED" and "mav_frame st \<noteq> BODY_OFFSET_NED"
    and "translation tr = Vector3d east north up"
  shows "position (emitted F st stamp tr) = Vector3d north east (- up)"
  using assms by (simp add: emitted_eq)

theorem world_fixed_translation_witness:
  "position (emitted sample_helpers
      ((SetpointPositionPlugin Map.empty 0)\<lparr> mav_frame := LOCAL_NED \<rparr>) 0
      \<lparr> translation = Vector3d 1 2 3, rotation = [] \<rparr>) = Vector3d 2 1 (- 3)"
  using world_fixed_translation
      [of "(SetpointPositionPlugin Map.empty 0)\<lparr> mav_frame := LOCAL_NED \<rparr>"
        "\<lparr> translation = Vector3d 1 2 3, rotation = [] \<rparr>" 1 2 3 sample_helpers 0]
  by (simp add: frames_distinct)

text \<open>
  C2: when the active frame is BODY_NED or BODY_OFFSET_NED, the position of the emitted
  command is the body-axis remap of the input translation and its yaw is read from the
  body-axis remap of the input rotation; the east-north-up to north-east-down helper is
  not applied: replacing it by any other function \<open>g\<close> leaves the result of the call
  unchanged.
\<close>

theorem body_relative_remap_only:
  assumes "mav_frame st = BODY_NED \<or> mav_frame st = BODY_OFFSET_NED"
  shows "position (emitted F st stamp tr) = transform_frame_baselink_aircraft (translation tr)
    \<and> yaw (emitted F st stamp tr) =
        quaternion_get_yaw F (transform_orientation_baselink_aircraft F (rotation tr))
    \<and> send_position_target (F\<lparr> transform_orientation_enu_ned := g \<rparr>) st stamp tr =
        send_position_target F st stamp tr"
  using assms
  by (auto simp: emitted_eq send_position_target_def Let_def)

theorem body_relative_remap_only_witness:
  "position (emitted sample_helpers
      ((SetpointPositionPlugin Map.empty 0)\<lparr> mav_frame := BODY_NED \<rparr>) 0
      \<lparr> translation = Vector3d 1 2 3, rotation = [] \<rparr>) = Vector3d 1 (- 2) (- 3)
   \<and> yaw (emitted sample_helpers
      ((SetpointPositionPlugin Map.empty 0)\<lparr> mav_frame := BODY_NED \<rparr>) 0
      \<lparr> translation = Vector3d 1 2 3, rotation = [] \<rparr>) = 1
   \<and> position (emitted sample_helpers
      ((SetpointPositionPlugin Map.empty 0)\<lparr> mav_frame := BODY_OFFSET_NED \<rparr>) 0
      \<lparr> translation = Vector3d 1 2 3, rotation = [] \<rparr>) = Vector3d 1 (- 2) (- 3)"
  using body_relative_remap_only
      [of "(SetpointPositionPlugin Map.empty 0)\<lparr> mav_frame := BODY_NED \<rparr>"
        sample_helpers 0 "\<lparr> translation = Vector3d 1 2 3, rotation = [] \<rparr>" id]
    body_relative_remap_only
      [of "(SetpointPositionPlugin Map.empty 0)\<lparr> mav_frame := BODY_OFFSET_NED \<rparr>"
        sample_helpers 0 "\<lparr> translation = Vector3d 1 2 3, rotation = [] \<rparr>" id]
  by (simp add: sample_helpers_def)

text \<open>
  C3: when the active frame is neither BODY_NED nor BODY_OFFSET_NED, the rotation is first
  remapped by the body-axis helper, the result is passed to the east-north-up to
  north-east-down helper, and the yaw of the emitted command is the yaw helper's value on
  that final rotation. The command carries this one scalar and no other part of the
  rotation.
\<close>

theorem world_fixed_orientation:
  assumes "mav_frame st \<noteq> BODY_NED" and "mav_frame st \<noteq> BODY_OFFSET_NED"
  shows "yaw (emitted F st stamp tr) =
     quaternion_get_yaw F
       (transform_orientation_enu_ned F
         (transform_orientation_baselink_aircraft F (rotation tr)))"
  using assms by (simp add: emitted_eq)

theorem world_fixed_orientation_witness:
  "yaw (emitted sample_helpers
      ((SetpointPositionPlugin Map.empty 0)\<lparr> mav_frame := LOCAL_NED \<rparr>) 0
      \<lparr> translation = Vector3d 1 2 3, rotation = [] \<rparr>)
    = quaternion_get_yaw sample_helpers [''baselink_aircraft'', ''enu_ned'']"
  using world_fixed_orientation
      [of "(SetpointPositionPlugin Map.empty 0)\<lparr> mav_frame := LOCAL_NED \<rparr>"
        sample_helpers 0 "\<lparr> translation = Vector3d 1 2 3, rotation = [] \<rparr>"]
  by (simp add: frames_distinct sample_helpers_def)

subsection \<open>The fixed fields of a command\<close>

text \<open>
  C4: every command sent in any run of a fresh instance, whatever the poses, the requests
  and the active frame, carries the same ignore mask, the 16-bit value 2552: bit 11, bits 6
  to 8 and bits 3 to 5 are set, bits 0 to 2 and bit 10 are clear. Its velocity and its
  acceleration are the zero vector and its yaw rate is zero.
\<close>

theorem C4_ignore_mask_constant:
  assumes "c \<in> set (sent (run F (initialize F (SetpointPositionPlugin ps garbage)) evs))"
  shows "ignore_mask c = 2552
   \<and> bit (ignore_mask c) 11
   \<and> bit (ignore_mask c) 8 \<and> bit (ignore_mask c) 7 \<and> bit (ignore_mask c) 6
   \<and> bit (ignore_mask c) 5 \<and> bit (ignore_mask c) 4 \<and> bit (ignore_mask c) 3
   \<and> \<not> bit (ignore_mask c) 0 \<and> \<not> bit (ignore_mask c) 1 \<and> \<not> bit (ignore_mask c) 2
   \<and> \<not> bit (ignore_mask c) 10
   \<and> velocity c = Vector3d 0 0 0
   \<and> acceleration c = Vector3d 0 0 0
   \<and> yaw_rate c = 0"
proof -
  have "sent (initialize F (SetpointPositionPlugin ps garbage)) = []"
    by (simp add: sent_initialize SetpointPositionPlugin_def)
  with assms sent_run [of F "initialize F (SetpointPositionPlugin ps garbage)" evs]
  have "from_encoder F c" by auto
  then obtain st stamp tr where c: "c = emitted F st stamp tr"
    by (auto simp: from_encoder_def)
  have f: "ignore_mask c = 2552 \<and> velocity c = Vector3d 0 0 0
      \<and> acceleration c = Vector3d 0 0 0 \<and> yaw_rate c = 0"
    unfolding c by (rule emitted_fixed_fields)
  have b: "bit (2552 :: 16 word) 11 \<and> bit (2552 :: 16 word) 8 \<and> bit (2552 :: 16 word) 7
      \<and> bit (2552 :: 16 word) 6 \<and> bit (2552 :: 16 word) 5 \<and> bit (2552 :: 16 word) 4
      \<and> bit (2552 :: 16 word) 3 \<and> \<not> bit (2552 :: 16 word) 0 \<and> \<not> bit (2552 :: 16 word) 1
      \<and> \<not> bit (2552 :: 16 word) 2 \<and> \<not> bit (2552 :: 16 word) 10"
    by simp
  show ?thesis using f b by simp
qed

theorem C4_ignore_mask_constant_witness:
  "\<lparr> time_ms = 1500, frame = 1, ignore_mask = 2552, position = Vector3d 2 1 (- 3),
       velocity = Vector3d 0 0 0, acceleration = Vector3d 0 0 0, yaw = 2, yaw_rate = 0 \<rparr>
     \<in> set (sent (run sample_helpers
         (initialize sample_helpers (SetpointPositionPlugin Map.empty 0))
         [PoseMsg \<lparr> pose_stamp = 1500000050, pose_position = Vector3d 1 2 3,
                    pose_orientation = [] \<rparr>]))
   \<and> bit (2552 :: 16 word) 11 \<and> \<not> bit (2552 :: 16 word) 10"
proof -
  have m: "\<lparr> time_ms = 1500, frame = 1, ignore_mask = 2552, position = Vector3d 2 1 (- 3),
       velocity = Vector3d 0 0 0, acceleration = Vector3d 0 0 0, yaw = 2,
       yaw_rate = 0 :: real \<rparr>
     \<in> set (sent (run sample_helpers
         (initialize sample_helpers (SetpointPositionPlugin Map.empty 0))
         [PoseMsg \<lparr> pose_stamp = 1500000050, pose_position = Vector3d 1 2 3,
                    pose_orientation = [] \<rparr>]))"
    by (simp add: sample_run)
  show ?thesis using m C4_ignore_mask_constant [OF m] by simp
qed

text \<open>
  C6, as stated, fails: the time of the command is not always the stamp's count of whole
  milliseconds. The field has 32 bits, and a stamp of 1700000000123456789 ns, which is
  1700000000123 whole milliseconds, is sent as 3487918203.
\<close>

theorem time_ms_wraps_counterexample:
  "unat (time_ms (emitted sample_helpers (SetpointPositionPlugin Map.empty 1)
            1700000000123456789 \<lparr> translation = Vector3d 1 2 3, rotation = [] \<rparr>))
     = 3487918203
   \<and> unat (1700000000123456789 :: 64 word) div 1000000 = 1700000000123
   \<and> unat (time_ms (emitted sample_helpers (SetpointPositionPlugin Map.empty 1)
            1700000000123456789 \<lparr> translation = Vector3d 1 2 3, rotation = [] \<rparr>))
     \<noteq> unat (1700000000123456789 :: 64 word) div 1000000"
proof -
  have q: "(1700000000123456789 :: 64 word) div 1000000 = 1700000000123"
    by simp
  have n: "(ucast (1700000000123 :: 64 word) :: 32 word) = 3487918203"
    by simp
  have t: "time_ms (emitted sample_helpers (SetpointPositionPlugin Map.empty 1)
            1700000000123456789 \<lparr> translation = Vector3d 1 2 3, rotation = [] \<rparr>)
     = 3487918203"
    by (simp only: emitted_eq SetpointCommand.simps q n)
  have d: "unat (1700000000123456789 :: 64 word) div 1000000 = 1700000000123"
    by simp
  show ?thesis unfolding t d by simp
qed

text \<open>
  C6, amended: the time of the emitted command is the stamp's count of whole milliseconds,
  nanoseconds divided by 1000000 and rounded down, never up, reduced modulo 2^32 to fit the
  unsigned 32-bit field. For a stamp below 2^32 milliseconds it is exactly that count. A
  stamp of 1500000050 ns gives 1500, not 1501.
\<close>

theorem time_ms_truncates:
  "unat (time_ms (emitted F st stamp tr)) = (unat stamp div 1000000) mod 2 ^ 32
   \<and> (unat stamp div 1000000 < 2 ^ 32 \<longrightarrow>
        unat (time_ms (emitted F st stamp tr)) = unat stamp div 1000000
      \<and> unat (time_ms (emitted F st stamp tr)) * 1000000 \<le> unat stamp
      \<and> unat stamp < (unat (time_ms (emitted F st stamp tr)) + 1) * 1000000)
   \<and> time_ms (emitted F st 1500000050 tr) = 1500
   \<and> time_ms (emitted F st 1500000050 tr) \<noteq> 1501"
proof -
  have t: "time_ms (emitted F st s tr) = ucast (s div 1000000)" for s
    by (simp add: emitted_eq)
  have "unat (ucast (stamp div 1000000) :: 32 word) = unat (stamp div 1000000) mod 2 ^ 32"
    by (simp add: unsigned_ucast_eq take_bit_eq_mod)
  then have u: "unat (time_ms (emitted F st stamp tr)) = (unat stamp div 1000000) mod 2 ^ 32"
    by (simp add: t unat_div)
  have lo: "unat stamp div 1000000 * 1000000 \<le> unat stamp"
    by simp
  have hi: "unat stamp < (unat stamp div 1000000 + 1) * 1000000"
    using dividend_less_div_times [of 1000000 "unat stamp"] by simp
  have small: "unat stamp div 1000000 < 2 ^ 32 \<longrightarrow>
        unat (time_ms (emitted F st stamp tr)) = unat stamp div 1000000
      \<and> unat (time_ms (emitted F st stamp tr)) * 1000000 \<le> unat stamp
      \<and> unat stamp < (unat (time_ms (emitted F st stamp tr)) + 1) * 1000000"
    using lo hi by (simp add: u)
  have e: "(ucast ((1500000050 :: 64 word) div 1000000) :: 32 word) = 1500"
    by simp
  have ex: "time_ms (emitted F st 1500000050 tr) = 1500
      \<and> time_ms (emitted F st 1500000050 tr) \<noteq> 1501"
    by (simp add: t e)
  show ?thesis using u small ex by blast
qed

theorem time_ms_truncates_witness:
  "unat (1500000050 :: 64 word) div 1000000 < 2 ^ 32
   \<and> unat (time_ms (emitted sample_helpers (SetpointPositionPlugin Map.empty 1)
            1500000050 \<lparr> translation = Vector3d 1 2 3, rotation = [] \<rparr>)) = 1500
   \<and> unat (time_ms (emitted sample_helpers (SetpointPositionPlugin Map.empty 1)
            1500000050 \<lparr> translation = Vector3d 1 2 3, rotation = [] \<rparr>)) * 1000000
       \<le> unat (1500000050 :: 64 word)"
proof -
  have d: "unat (1500000050 :: 64 word) div 1000000 = 1500"
    by simp
  show ?thesis
    using time_ms_truncates [of sample_helpers "SetpointPositionPlugin Map.empty 1"
        1500000050 "\<lparr> translation = Vector3d 1 2 3, rotation = [] \<rparr>"]
    unfolding d by simp
qed

subsection \<open>Frame selection\<close>

text \<open>
  C5: for any 8-bit frame id in the request, the handler makes that id the active frame,
  answers success and returns true, with no check of the id. The name of the frame is
  written to the parameter ''mav_frame'' when the server takes the write; when it does
  not, the store is as before and the active frame is the new one all the same. An encode
  on the new state sends the new id and takes the branch of the new id, and the active
  frame stays the new id through any events that are not frame requests.
\<close>

theorem frame_selection_unconditional:
  assumes "set_mav_frame_cb F st req stored = (st', res, ret)"
  shows "mav_frame st' = req_mav_frame req
    \<and> res_success res \<and> ret
    \<and> sp_nh st' = (if stored
         then (sp_nh st)(''mav_frame'' \<mapsto> TypeString (to_string F (req_mav_frame req)))
         else sp_nh st)
    \<and> frame (emitted F st' stamp tr) = req_mav_frame req
    \<and> position (emitted F st' stamp tr) =
        (if req_mav_frame req = BODY_NED \<or> req_mav_frame req = BODY_OFFSET_NED
         then transform_frame_baselink_aircraft (translation tr)
         else transform_frame_enu_ned (translation tr))
    \<and> yaw (emitted F st' stamp tr) = quaternion_get_yaw F
        (if req_mav_frame req = BODY_NED \<or> req_mav_frame req = BODY_OFFSET_NED
         then transform_orientation_baselink_aircraft F (rotation tr)
         else transform_orientation_enu_ned F
                (transform_orientation_baselink_aircraft F (rotation tr)))
    \<and> ((\<forall>ev\<in>set evs. \<not> is_frame_request ev) \<longrightarrow>
          mav_frame (run F st' evs) = req_mav_frame req)"
proof -
  from assms have st': "st' = st\<lparr> mav_frame := req_mav_frame req,
      sp_nh := setParam (sp_nh st) ''mav_frame'' (to_string F (req_mav_frame req)) stored \<rparr>"
    and res: "res = \<lparr> res_success = True \<rparr>" and ret: "ret"
    by (auto simp: set_mav_frame_cb_def Let_def)
  have m: "mav_frame st' = req_mav_frame req"
    by (simp add: st')
  have p: "sp_nh st' = (if stored
         then (sp_nh st)(''mav_frame'' \<mapsto> TypeString (to_string F (req_mav_frame req)))
         else sp_nh st)"
    by (simp add: st' setParam_def)
  have r: "(\<forall>ev\<in>set evs. \<not> is_frame_request ev) \<longrightarrow>
          mav_frame (run F st' evs) = req_mav_frame req"
    using mav_frame_run [of evs F st'] m by simp
  show ?thesis using m p r res ret by (simp add: emitted_eq)
qed

theorem frame_selection_unconditional_witness:
  "set_mav_frame_cb sample_helpers (SetpointPositionPlugin Map.empty 1)
       \<lparr> req_mav_frame = 200 \<rparr> True
     = ((SetpointPositionPlugin Map.empty 1)
          \<lparr> mav_frame := 200, sp_nh := [''mav_frame'' \<mapsto> TypeString ''UNKNOWN''] \<rparr>,
        \<lparr> res_success = True \<rparr>, True)
   \<and> frame (emitted sample_helpers ((SetpointPositionPlugin Map.empty 1)
          \<lparr> mav_frame := 200, sp_nh := [''mav_frame'' \<mapsto> TypeString ''UNKNOWN''] \<rparr>) 0
          \<lparr> translation = Vector3d 1 2 3, rotation = [] \<rparr>) = 200
   \<and> position (emitted sample_helpers ((SetpointPositionPlugin Map.empty 1)
          \<lparr> mav_frame := 200, sp_nh := [''mav_frame'' \<mapsto> TypeString ''UNKNOWN''] \<rparr>) 0
          \<lparr> translation = Vector3d 1 2 3, rotation = [] \<rparr>) = Vector3d 2 1 (- 3)"
proof -
  have h: "set_mav_frame_cb sample_helpers (SetpointPositionPlugin Map.empty 1)
       \<lparr> req_mav_frame = 200 \<rparr> True
     = ((SetpointPositionPlugin Map.empty 1)
          \<lparr> mav_frame := 200, sp_nh := [''mav_frame'' \<mapsto> TypeString ''UNKNOWN''] \<rparr>,
        \<lparr> res_success = True \<rparr>, True)"
    by (simp add: set_mav_frame_cb_def setParam_def sample_helpers_def
        SetpointPositionPlugin_def Let_def)
  show ?thesis
    using h frame_selection_unconditional
        [OF h, of 0 "\<lparr> translation = Vector3d 1 2 3, rotation = [] \<rparr>" "[]"]
    by (simp add: BODY_NED_def BODY_OFFSET_NED_def SetpointPositionPlugin_def
        sample_helpers_def)
qed

text \<open>
  C10: for every frame id other than BODY_NED and BODY_OFFSET_NED, known to the protocol
  or not, the encoder takes the world-fixed branch: the position is the east-north-up to
  north-east-down transform of the translation and the yaw is read from the rotation
  remapped by the body-axis helper and then by the east-north-up to north-east-down
  helper. So it is for a state that holds the id, and for the state the frame selection
  service leaves when asked for the id. The instance that follows is the id 200, which
  the protocol does not know.
\<close>

theorem other_frames_world_fixed:
  assumes "f \<noteq> BODY_NED" and "f \<noteq> BODY_OFFSET_NED"
  shows "(mav_frame st = f \<longrightarrow>
            position (emitted F st stamp tr) = transform_frame_enu_ned (translation tr)
          \<and> yaw (emitted F st stamp tr) = quaternion_get_yaw F
              (transform_orientation_enu_ned F
                (transform_orientation_baselink_aircraft F (rotation tr))))
    \<and> mav_frame (fst (set_mav_frame_cb F st \<lparr> req_mav_frame = f \<rparr> stored)) = f
    \<and> frame (emitted F (fst (set_mav_frame_cb F st \<lparr> req_mav_frame = f \<rparr> stored)) stamp tr) = f
    \<and> position (emitted F (fst (set_mav_frame_cb F st \<lparr> req_mav_frame = f \<rparr> stored)) stamp tr) =
        transform_frame_enu_ned (translation tr)
    \<and> yaw (emitted F (fst (set_mav_frame_cb F st \<lparr> req_mav_frame = f \<rparr> stored)) stamp tr) =
        quaternion_get_yaw F
          (transform_orientation_enu_ned F
            (transform_orientation_baselink_aircraft F (rotation tr)))"
  using assms by (simp add: emitted_eq set_mav_frame_cb_def Let_def)

theorem other_frames_world_fixed_witness:
  "(200 :: MAV_FRAME) \<noteq> BODY_NED \<and> (200 :: MAV_FRAME) \<noteq> BODY_OFFSET_NED
   \<and> (200 :: MAV_FRAME) \<noteq> LOCAL_NED
   \<and> position (emitted sample_helpers
        (fst (set_mav_frame_cb sample_helpers (SetpointPositionPlugin Map.empty 1)
           \<lparr> req_mav_frame = 200 \<rparr> False)) 0
        \<lparr> translation = Vector3d 4 5 6, rotation = [] \<rparr>) = Vector3d 5 4 (- 6)
   \<and> yaw (emitted sample_helpers
        (fst (set_mav_frame_cb sample_helpers (SetpointPositionPlugin Map.empty 1)
           \<lparr> req_mav_frame = 200 \<rparr> False)) 0
        \<lparr> translation = Vector3d 4 5 6, rotation = [] \<rparr>)
      = quaternion_get_yaw sample_helpers [''baselink_aircraft'', ''enu_ned'']"
proof -
  have a: "(200 :: MAV_FRAME) \<noteq> BODY_NED" and b: "(200 :: MAV_FRAME) \<noteq> BODY_OFFSET_NED"
    and c: "(200 :: MAV_FRAME) \<noteq> LOCAL_NED"
    by (simp_all add: BODY_NED_def BODY_OFFSET_NED_def LOCAL_NED_def)
  show ?thesis
    using a b c other_frames_world_fixed [OF a b,
        of "SetpointPositionPlugin Map.empty 1" sample_helpers 0
          "\<lparr> translation = Vector3d 4 5 6, rotation = [] \<rparr>" False]
    by (simp add: sample_helpers_def)
qed

subsection \<open>Initialisation\<close>

text \<open>
  C7: a fresh instance, once initialised, has exactly one pose source, chosen by the
  parameter ''tf/listen'' (false when absent): the transform listener and no subscription
  when it is true, the subscription to ''local'' and no listener when it is false. No
  event changes this afterwards.
\<close>

theorem one_pose_source:
  "tf_thd_name (run F (initialize F (SetpointPositionPlugin ps garbage)) evs) =
     (if param_bool ps ''tf/listen'' False then Some ''PositionSpTF'' else None)
   \<and> setpoint_sub (run F (initialize F (SetpointPositionPlugin ps garbage)) evs) =
     (if param_bool ps ''tf/listen'' False then None else Some (''local'', 10))
   \<and> (tf_thd_name (run F (initialize F (SetpointPositionPlugin ps garbage)) evs) = None)
       \<noteq> (setpoint_sub (run F (initialize F (SetpointPositionPlugin ps garbage)) evs) = None)"
  by (simp add: adapters_run adapters_initialize)

text \<open>
  C8: initialisation sets the active frame to LOCAL_NED when the parameter ''mav_frame''
  is absent, and to the frame \<open>mav_frame_from_str\<close> makes of the name when the parameter
  holds a name.
\<close>

theorem initial_frame:
  "(sp_nh st ''mav_frame'' = None \<longrightarrow> mav_frame (initialize F st) = LOCAL_NED)
   \<and> (\<forall>s. sp_nh st ''mav_frame'' = Some (TypeString s) \<longrightarrow>
         mav_frame (initialize F st) = mav_frame_from_str F s)"
  by (simp add: initialize_def tf2_start_def getParam_def Let_def)

theorem initial_frame_witness:
  "mav_frame (initialize sample_helpers (SetpointPositionPlugin Map.empty 0)) = LOCAL_NED
   \<and> mav_frame (initialize sample_helpers
        (SetpointPositionPlugin [''mav_frame'' \<mapsto> TypeString ''BODY_NED''] 0)) = BODY_NED"
  using initial_frame [of "SetpointPositionPlugin Map.empty 0" sample_helpers]
    initial_frame [of "SetpointPositionPlugin [''mav_frame'' \<mapsto> TypeString ''BODY_NED''] 0"
      sample_helpers]
  by (simp add: SetpointPositionPlugin_def sample_helpers_def BODY_NED_def)

subsection \<open>Rate limiting\<close>

text \<open>
  C9: in the transform listener, an update that arrives less than \<open>1 / tf_rate\<close> after
  the last processed one leaves the whole state as it was: nothing is sent, nothing is
  kept for later and the limiter's clock stays. An accepted update sends exactly one
  command, the encoder's for that transform, and sets the clock to its arrival. At
  50 updates per second, of two updates 5 ms apart on a listener that has processed
  nothing, the second changes nothing and one command is sent. The rate is 50 when the
  parameter ''tf/rate_limit'' is absent.
\<close>

theorem rate_limit_drops:
  fixes st :: "('a::linordered_field) plugin"
  shows "(tf_last_processed st = Some t0 \<and> now - t0 < 1 / tf_rate st \<longrightarrow>
            tf_listener_update F st now m = st)
    \<and> (tf_last_processed st = None
         \<or> (\<exists>t0. tf_last_processed st = Some t0 \<and> 1 / tf_rate st \<le> now - t0) \<longrightarrow>
            sent (tf_listener_update F st now m) =
              sent st @ [emitted F st (transform_stamp m)
                \<lparr> translation = transform_translation m, rotation = transform_rotation m \<rparr>]
          \<and> tf_last_processed (tf_listener_update F st now m) = Some now)
    \<and> (tf_rate st = 50 \<and> tf_last_processed st = None \<longrightarrow>
          tf_listener_update F (tf_listener_update F st now m) (now + 5 / 1000) m2 =
            tf_listener_update F st now m
        \<and> length (sent (tf_listener_update F (tf_listener_update F st now m)
                           (now + 5 / 1000) m2)) =
            length (sent st) + 1)
    \<and> (sp_nh st ''tf/rate_limit'' = None \<longrightarrow> tf_rate (initialize G st) = 50)"
proof -
  have drop: "tf_last_processed st = Some t0 \<and> now - t0 < 1 / tf_rate st \<longrightarrow>
      tf_listener_update F st now m = st"
    by (simp add: tf_listener_update_def min_interval_def)
  have acc: "tf_last_processed st = None
      \<or> (\<exists>t0. tf_last_processed st = Some t0 \<and> 1 / tf_rate st \<le> now - t0) \<longrightarrow>
      sent (tf_listener_update F st now m) =
        sent st @ [emitted F st (transform_stamp m)
          \<lparr> translation = transform_translation m, rotation = transform_rotation m \<rparr>]
      \<and> tf_last_processed (tf_listener_update F st now m) = Some now"
    by (auto simp: tf_listener_update_def min_interval_def transform_cb_def
        send_position_target_eq emitted_tf_last_processed Let_def)
  have first: "tf_last_processed st = None \<Longrightarrow>
      tf_listener_update F st now m = transform_cb F (st\<lparr> tf_last_processed := Some now \<rparr>) m"
    by (simp add: tf_listener_update_def)
  have kept:
    "tf_last_processed (transform_cb F (st\<lparr> tf_last_processed := Some now \<rparr>) m) = Some now
      \<and> tf_rate (transform_cb F (st\<lparr> tf_last_processed := Some now \<rparr>) m) = tf_rate st
      \<and> length (sent (transform_cb F (st\<lparr> tf_last_processed := Some now \<rparr>) m)) =
          length (sent st) + 1"
    by (simp add: transform_cb_def send_position_target_eq Let_def)
  have two: "tf_rate st = 50 \<and> tf_last_processed st = None \<longrightarrow>
      tf_listener_update F (tf_listener_update F st now m) (now + 5 / 1000) m2 =
        tf_listener_update F st now m
      \<and> length (sent (tf_listener_update F (tf_listener_update F st now m)
                         (now + 5 / 1000) m2)) =
        length (sent st) + 1"
  proof (intro impI, elim conjE)
    assume r: "tf_rate st = 50" and n: "tf_last_processed st = None"
    let ?s1 = "transform_cb F (st\<lparr> tf_last_processed := Some now \<rparr>) m"
    have "tf_listener_update F ?s1 (now + 5 / 1000) m2 = ?s1"
      using kept r by (simp add: tf_listener_update_def min_interval_def)
    then show "tf_listener_update F (tf_listener_update F st now m) (now + 5 / 1000) m2 =
        tf_listener_update F st now m
      \<and> length (sent (tf_listener_update F (tf_listener_update F st now m)
                         (now + 5 / 1000) m2)) =
        length (sent st) + 1"
      using kept by (simp add: first [OF n])
  qed
  have dflt: "sp_nh st ''tf/rate_limit'' = None \<longrightarrow> tf_rate (initialize G st) = 50"
    by (simp add: initialize_def tf2_start_def param_double_def Let_def split: option.splits)
  show ?thesis using drop acc two dflt by blast
qed

theorem rate_limit_drops_witness:
  "sent (tf_listener_update sample_helpers
      (tf_listener_update sample_helpers
         (initialize sample_helpers
            (SetpointPositionPlugin [''tf/listen'' \<mapsto> TypeBoolean True] 0))
         10
         \<lparr> transform_stamp = 10000000000, transform_translation = Vector3d 1 2 3,
           transform_rotation = [] \<rparr>)
      (10 + 5 / 1000)
      \<lparr> transform_stamp = 10005000000, transform_translation = Vector3d 7 8 9,
        transform_rotation = [] \<rparr>)
   = [\<lparr> time_ms = 10000, frame = 1, ignore_mask = 2552, position = Vector3d 2 1 (- 3),
        velocity = Vector3d 0 0 0, acceleration = Vector3d 0 0 0, yaw = 2, yaw_rate = 0 \<rparr>]"
proof -
  let ?s0 = "initialize sample_helpers
            (SetpointPositionPlugin [''tf/listen'' \<mapsto> TypeBoolean True] 0)"
  have s0: "?s0 = \<lparr> sp_nh = [''tf/listen'' \<mapsto> TypeBoolean True], setpoint_sub = None,
       mav_frame_srv = Some ''mav_frame'',
       tf_frame_id = ''map'', tf_child_frame_id = ''target_position'',
       tf_listen = True, tf_rate = 50, mav_frame = 1,
       tf_thd_name = Some ''PositionSpTF'', tf_last_processed = None, sent = [] \<rparr>"
    by (simp add: initialize_def SetpointPositionPlugin_def param_bool_def
        param_string_def param_double_def getParam_def tf2_start_def LOCAL_NED_def Let_def)
  have e: "emitted sample_helpers ?s0 10000000000
      \<lparr> translation = Vector3d 1 2 3, rotation = [] \<rparr>
    = \<lparr> time_ms = 10000, frame = 1, ignore_mask = 2552, position = Vector3d 2 1 (- 3),
        velocity = Vector3d 0 0 0, acceleration = Vector3d 0 0 0, yaw = 2, yaw_rate = 0 \<rparr>"
    unfolding s0
    by (simp add: emitted_def send_position_target_def set_position_target_local_ned_def
        sample_helpers_def BODY_NED_def BODY_OFFSET_NED_def Vector3d_Zero_def
        ignore_all_except_xyz_y_def Let_def)
  have r: "tf_rate ?s0 = 50 \<and> tf_last_processed ?s0 = None \<and> sent ?s0 = []"
    unfolding s0 by simp
  show ?thesis
    using rate_limit_drops [of ?s0 0 10 sample_helpers
        "\<lparr> transform_stamp = 10000000000, transform_translation = Vector3d 1 2 3,
           transform_rotation = [] \<rparr>"
        "\<lparr> transform_stamp = 10005000000, transform_translation = Vector3d 7 8 9,
          transform_rotation = [] \<rparr>" sample_helpers] r e
    by simp
qed

end
